theory Spec2Isabelle
  imports Main "HOL-Library.Log_Nat" "HOL-Library.AList"
begin

section \<open>Python values\<close>

text \<open>
  The scraper is Python code. Its strings are modelled as \<open>string\<close> restricted to
  ASCII text: a character beyond ASCII is carried along unchanged and is neither
  whitespace, nor a digit, nor a letter. Its unbounded integers are \<open>int\<close>. Its
  floats are IEEE binary64 values, modelled by the rational number they denote
  (every finite double is a rational), with the two infinities and NaN as
  separate values; the sign of zero is not kept, no operation of the scraper
  observes it.
\<close>

datatype pyfloat = Finite rat | PosInf | NegInf | NaN

text \<open>
  The exceptions the scraper can meet. Each carries the text that \<open>str(e)\<close> yields.
  \<open>TimeoutError\<close> is the browser library's navigation timeout, \<open>BrowserError\<close> any
  other failure raised by the browser library.
\<close>

datatype py_exc =
    ValueError string
  | OverflowError string
  | TypeError string
  | AttributeError string
  | KeyError string
  | IndexError string
  | TimeoutError string
  | BrowserError string

fun exc_str :: "py_exc \<Rightarrow> string" where
  "exc_str (ValueError m) = m"
| "exc_str (OverflowError m) = m"
| "exc_str (TypeError m) = m"
| "exc_str (AttributeError m) = m"
| "exc_str (KeyError m) = m"
| "exc_str (IndexError m) = m"
| "exc_str (TimeoutError m) = m"
| "exc_str (BrowserError m) = m"

subsection \<open>String methods\<close>

definition py_isspace :: "char \<Rightarrow> bool" where
  "py_isspace c = (c \<in> set [CHR 0x09, CHR 0x0A, CHR 0x0B, CHR 0x0C, CHR 0x0D,
                              CHR 0x1C, CHR 0x1D, CHR 0x1E, CHR 0x1F, CHR '' ''])"

definition py_isdigit :: "char \<Rightarrow> bool" where
  "py_isdigit c = (c \<in> set ''0123456789'')"

definition py_strip :: "string \<Rightarrow> string" where
  "py_strip s = rev (dropWhile py_isspace (rev (dropWhile py_isspace s)))"

definition upper_char :: "char \<Rightarrow> char" where
  "upper_char c =
     (let n = (of_char c :: nat)
      in if 97 \<le> n \<and> n \<le> 122 then char_of (n - 32) else c)"

definition py_upper :: "string \<Rightarrow> string" where
  "py_upper s = map upper_char s"

text \<open>\<open>s.replace(c, '')\<close> for a one-character \<open>c\<close>.\<close>

definition py_remove :: "char \<Rightarrow> string \<Rightarrow> string" where
  "py_remove c s = filter (\<lambda>d. d \<noteq> c) s"

definition py_endswith :: "string \<Rightarrow> char \<Rightarrow> bool" where
  "py_endswith s c = (s \<noteq> [] \<and> last s = c)"

text \<open>\<open>a in s\<close> for two strings: \<open>a\<close> occurs in \<open>s\<close> as a substring.\<close>

fun py_substring :: "string \<Rightarrow> string \<Rightarrow> bool" where
  "py_substring a [] = (a = [])"
| "py_substring a (c # cs) = (a = take (length a) (c # cs) \<or> py_substring a cs)"

subsection \<open>Binary64 rounding\<close>

definition pow2 :: "int \<Rightarrow> rat" where
  "pow2 e = (if 0 \<le> e then 2 ^ nat e else 1 / 2 ^ nat (- e))"

text \<open>The binary exponent of a positive rational: \<open>2^e \<le> q < 2^(e+1)\<close>.\<close>

definition ilog2 :: "rat \<Rightarrow> int" where
  "ilog2 q = (let (a, b) = quotient_of q; g = bitlen a - bitlen b
              in if pow2 g \<le> q then g else g - 1)"

definition round_half_even :: "rat \<Rightarrow> int" where
  "round_half_even q =
     (let f = \<lfloor>q\<rfloor>; d = q - of_int f
      in if d < 1 / 2 then f else if 1 / 2 < d then f + 1
         else if even f then f else f + 1)"

text \<open>
  Rounding a non-negative rational to the nearest double, ties to even: 53
  significant bits, exponents from \<open>-1022\<close> (below that the spacing stays that of the
  subnormals). The result is \<open>None\<close> when the rounded value reaches \<open>2^1024\<close>, beyond
  the largest double: the exponent is above 1023, or it is 1023 and the significand
  rounds up to \<open>2^53\<close>.
\<close>

definition round_magnitude :: "rat \<Rightarrow> rat option" where
  "round_magnitude q =
     (if q = 0 then Some 0
      else let e = max (ilog2 q) (- 1022);
               ulp = pow2 (e - 52);
               n = round_half_even (q / ulp)
           in if 1024 \<le> e \<or> (e = 1023 \<and> 2 ^ 53 \<le> n) then None
              else Some (of_int n * ulp))"

definition round_binary64 :: "rat \<Rightarrow> pyfloat" where
  "round_binary64 q =
     (if q < 0 then (case round_magnitude (- q) of None \<Rightarrow> NegInf | Some r \<Rightarrow> Finite (- r))
      else (case round_magnitude q of None \<Rightarrow> PosInf | Some r \<Rightarrow> Finite r))"

text \<open>\<open>f * m\<close> for a float and an integer that a double holds exactly.\<close>

fun float_times_int :: "pyfloat \<Rightarrow> int \<Rightarrow> pyfloat" where
  "float_times_int (Finite q) m = round_binary64 (q * of_int m)"
| "float_times_int PosInf m = (if 0 < m then PosInf else if m < 0 then NegInf else NaN)"
| "float_times_int NegInf m = (if 0 < m then NegInf else if m < 0 then PosInf else NaN)"
| "float_times_int NaN m = NaN"

text \<open>\<open>int(f)\<close>: truncation towards zero; infinities and NaN raise.\<close>

fun py_int_of_float :: "pyfloat \<Rightarrow> py_exc + int" where
  "py_int_of_float (Finite q) = Inr (if 0 \<le> q then \<lfloor>q\<rfloor> else \<lceil>q\<rceil>)"
| "py_int_of_float PosInf = Inl (OverflowError ''cannot convert float infinity to integer'')"
| "py_int_of_float NegInf = Inl (OverflowError ''cannot convert float infinity to integer'')"
| "py_int_of_float NaN = Inl (ValueError ''cannot convert float NaN to integer'')"

subsection \<open>\<open>float(text)\<close>\<close>

text \<open>
  The grammar of \<open>float\<close> on a string: surrounding whitespace is dropped; underscores
  may stand between two digits only; then an optional sign and either \<open>inf\<close>,
  \<open>infinity\<close>, \<open>nan\<close> (in any case) or digits with an optional point and an optional
  exponent. The value is the decimal number rounded to the nearest double; a number
  too large becomes an infinity. Anything else raises \<open>ValueError\<close>.
\<close>

fun underscores_ok :: "char \<Rightarrow> string \<Rightarrow> bool" where
  "underscores_ok prev [] = (prev \<noteq> CHR ''_'')"
| "underscores_ok prev (c # cs) =
     (if c = CHR ''_'' then py_isdigit prev \<and> underscores_ok c cs
      else (prev = CHR ''_'' \<longrightarrow> py_isdigit c) \<and> underscores_ok c cs)"

definition digit_val :: "char \<Rightarrow> int" where
  "digit_val c = of_char c - 48"

definition digits_val :: "string \<Rightarrow> int" where
  "digits_val ds = foldl (\<lambda>n c. 10 * n + digit_val c) 0 ds"

definition pow10 :: "int \<Rightarrow> rat" where
  "pow10 e = (if 0 \<le> e then 10 ^ nat e else 1 / 10 ^ nat (- e))"

text \<open>The exponent part: empty, or \<open>e\<close>/\<open>E\<close>, an optional sign and at least one digit.\<close>

definition parse_exponent :: "string \<Rightarrow> int option" where
  "parse_exponent s =
     (case s of
        [] \<Rightarrow> Some 0
      | c # cs \<Rightarrow>
          if c = CHR ''e'' \<or> c = CHR ''E'' then
            (let (neg, ds) = (case cs of
                                [] \<Rightarrow> (False, [])
                              | d # ds' \<Rightarrow> if d = CHR ''-'' then (True, ds')
                                           else if d = CHR ''+'' then (False, ds')
                                           else (False, cs))
             in if ds \<noteq> [] \<and> list_all py_isdigit ds
                then Some (if neg then - digits_val ds else digits_val ds)
                else None)
          else None)"

text \<open>An unsigned decimal number, as a rational.\<close>

definition parse_decimal :: "string \<Rightarrow> rat option" where
  "parse_decimal s =
     (let ip = takeWhile py_isdigit s;
          r1 = dropWhile py_isdigit s;
          (fp, r2) = (case r1 of
                        [] \<Rightarrow> ([], [])
                      | c # cs \<Rightarrow> if c = CHR ''.''
                                   then (takeWhile py_isdigit cs, dropWhile py_isdigit cs)
                                   else ([], r1))
      in if ip = [] \<and> fp = [] then None
         else (case parse_exponent r2 of
                 None \<Rightarrow> None
               | Some e \<Rightarrow> Some (of_int (digits_val (ip @ fp)) * pow10 (e - int (length fp)))))"

definition parse_unsigned_float :: "string \<Rightarrow> pyfloat option" where
  "parse_unsigned_float s =
     (if py_upper s = ''INF'' \<or> py_upper s = ''INFINITY'' then Some PosInf
      else if py_upper s = ''NAN'' then Some NaN
      else map_option round_binary64 (parse_decimal s))"

fun float_neg :: "pyfloat \<Rightarrow> pyfloat" where
  "float_neg (Finite q) = Finite (- q)"
| "float_neg PosInf = NegInf"
| "float_neg NegInf = PosInf"
| "float_neg NaN = NaN"

definition py_float :: "string \<Rightarrow> py_exc + pyfloat" where
  "py_float text =
     (let s = py_strip text;
          t = py_remove CHR ''_'' s;
          r = (if \<not> underscores_ok CHR 0x00 s then None
               else case t of
                      [] \<Rightarrow> None
                    | c # cs \<Rightarrow> if c = CHR ''-'' then map_option float_neg (parse_unsigned_float cs)
                                 else if c = CHR ''+'' then parse_unsigned_float cs
                                 else parse_unsigned_float t)
      in case r of
           None \<Rightarrow> Inl (ValueError (''could not convert string to float: '' @ [CHR 0x27] @ text @ [CHR 0x27]))
         | Some f \<Rightarrow> Inr f)"

section \<open>Count parser\<close>

text \<open>
  \<open>_parse_count\<close> exists twice, in \<open>TikTokScraper\<close> and in \<open>InstagramScraper\<close>. Both
  guard the conversion with \<open>except ValueError\<close>: that exception yields 0, any other
  one leaves the function.
\<close>

definition except_ValueError :: "py_exc + int \<Rightarrow> py_exc + int" where
  "except_ValueError r = (case r of Inl (ValueError m) \<Rightarrow> Inr 0 | _ \<Rightarrow> r)"

definition tiktok_parse_count :: "string \<Rightarrow> py_exc + int" where
  "tiktok_parse_count text =
     (if text = [] then Inr 0
      else
        let text1 = py_remove CHR '' '' (py_remove CHR '','' (py_upper (py_strip text)));
            (multiplier, text2) =
               (if py_endswith text1 CHR ''K'' then (1000, butlast text1)
                else if py_endswith text1 CHR ''M'' then (1000000, butlast text1)
                else if py_endswith text1 CHR ''B'' then (1000000000, butlast text1)
                else (1, text1))
        in except_ValueError
             (case py_float text2 of
                Inl e \<Rightarrow> Inl e
              | Inr f \<Rightarrow> py_int_of_float (float_times_int f multiplier)))"

definition instagram_parse_count :: "string \<Rightarrow> py_exc + int" where
  "instagram_parse_count text =
     (if text = [] then Inr 0
      else
        let text1 = py_remove CHR '' '' (py_remove CHR '','' (py_upper (py_strip text)));
            (multiplier, text2) =
               (if py_endswith text1 CHR ''K'' then (1000, butlast text1)
                else if py_endswith text1 CHR ''M'' then (1000000, butlast text1)
                else if py_endswith text1 CHR ''B'' then (1000000000, butlast text1)
                else (1, text1))
        in except_ValueError
             (case py_float text2 of
                Inl e \<Rightarrow> Inl e
              | Inr f \<Rightarrow> py_int_of_float (float_times_int f multiplier)))"

section \<open>JSON payloads and dictionaries\<close>

text \<open>
  A decoded JSON value, as \<open>json.loads\<close> and the browser library produce it:
  \<open>None\<close>, a \<open>bool\<close>, an \<open>int\<close>, a \<open>float\<close>, a \<open>str\<close>, a \<open>list\<close> or a \<open>dict\<close> with
  string keys. A dictionary is an association list in insertion order, read with
  \<open>map_of\<close> and written with \<open>AList.update\<close>, which replaces the value of a key in
  place and appends a new key, as a Python \<open>dict\<close> does.
\<close>

datatype json =
    JNull
  | JBool bool
  | JInt int
  | JFloat pyfloat
  | JStr string
  | JList "json list"
  | JObj "(string \<times> json) list"

type_synonym pydict = "(string \<times> json) list"

fun type_name :: "json \<Rightarrow> string" where
  "type_name JNull = ''NoneType''"
| "type_name (JBool b) = ''bool''"
| "type_name (JInt n) = ''int''"
| "type_name (JFloat f) = ''float''"
| "type_name (JStr s) = ''str''"
| "type_name (JList xs) = ''list''"
| "type_name (JObj kv) = ''dict''"

definition quoted :: "string \<Rightarrow> string" where
  "quoted s = [CHR 0x27] @ s @ [CHR 0x27]"

text \<open>Truth value of a Python object, as \<open>if x\<close> and \<open>not x\<close> take it.\<close>

fun truthy :: "json \<Rightarrow> bool" where
  "truthy JNull = False"
| "truthy (JBool b) = b"
| "truthy (JInt n) = (n \<noteq> 0)"
| "truthy (JFloat f) = (f \<noteq> Finite 0)"
| "truthy (JStr s) = (s \<noteq> [])"
| "truthy (JList xs) = (xs \<noteq> [])"
| "truthy (JObj kv) = (kv \<noteq> [])"

definition bind_exc :: "py_exc + 'a \<Rightarrow> ('a \<Rightarrow> py_exc + 'b) \<Rightarrow> py_exc + 'b" where
  "bind_exc r f = (case r of Inl e \<Rightarrow> Inl e | Inr x \<Rightarrow> f x)"

text \<open>\<open>key in v\<close> for a string \<open>key\<close>.\<close>

fun py_in :: "string \<Rightarrow> json \<Rightarrow> py_exc + bool" where
  "py_in k (JObj kv) = Inr (map_of kv k \<noteq> None)"
| "py_in k (JList xs) = Inr (JStr k \<in> set xs)"
| "py_in k (JStr s) = Inr (py_substring k s)"
| "py_in k v = Inl (TypeError (''argument of type '' @ quoted (type_name v) @ '' is not iterable''))"

text \<open>\<open>v.get(key, default)\<close>: only a \<open>dict\<close> has the method.\<close>

fun py_get :: "json \<Rightarrow> string \<Rightarrow> json \<Rightarrow> py_exc + json" where
  "py_get (JObj kv) k d = Inr (case map_of kv k of None \<Rightarrow> d | Some x \<Rightarrow> x)"
| "py_get v k d = Inl (AttributeError (quoted (type_name v) @ '' object has no attribute ''
                                       @ quoted ''get''))"

text \<open>\<open>v[key]\<close> for a string \<open>key\<close>.\<close>

fun py_item :: "json \<Rightarrow> string \<Rightarrow> py_exc + json" where
  "py_item (JObj kv) k =
     (case map_of kv k of None \<Rightarrow> Inl (KeyError (quoted k)) | Some x \<Rightarrow> Inr x)"
| "py_item (JList xs) k = Inl (TypeError ''list indices must be integers or slices, not str'')"
| "py_item (JStr s) k = Inl (TypeError (''string indices must be integers, not '' @ quoted ''str''))"
| "py_item v k = Inl (TypeError (quoted (type_name v) @ '' object is not subscriptable''))"

text \<open>\<open>v[0]\<close>. The keys of a decoded JSON object are strings, so a \<open>dict\<close> has no key \<open>0\<close>.\<close>

fun py_first :: "json \<Rightarrow> py_exc + json" where
  "py_first (JList []) = Inl (IndexError ''list index out of range'')"
| "py_first (JList (x # xs)) = Inr x"
| "py_first (JStr []) = Inl (IndexError ''string index out of range'')"
| "py_first (JStr (c # cs)) = Inr (JStr [c])"
| "py_first (JObj kv) = Inl (KeyError ''0'')"
| "py_first v = Inl (TypeError (quoted (type_name v) @ '' object is not subscriptable''))"

text \<open>\<open>v > 0\<close>: defined on numbers (a \<open>bool\<close> is the integer 0 or 1), a \<open>TypeError\<close> otherwise.\<close>

fun gt_zero :: "json \<Rightarrow> py_exc + bool" where
  "gt_zero (JInt n) = Inr (0 < n)"
| "gt_zero (JBool b) = Inr b"
| "gt_zero (JFloat (Finite q)) = Inr (0 < q)"
| "gt_zero (JFloat PosInf) = Inr True"
| "gt_zero (JFloat NegInf) = Inr False"
| "gt_zero (JFloat NaN) = Inr False"
| "gt_zero v = Inl (TypeError (quoted ''>'' @ '' not supported between instances of ''
                               @ quoted (type_name v) @ '' and '' @ quoted ''int''))"

text \<open>\<open>d.get(key, default)\<close> and \<open>d[key] = v\<close> on a dictionary built by the scraper itself.\<close>

definition dict_get :: "pydict \<Rightarrow> string \<Rightarrow> json \<Rightarrow> json" where
  "dict_get d k dflt = (case map_of d k of None \<Rightarrow> dflt | Some x \<Rightarrow> x)"

definition dict_set :: "pydict \<Rightarrow> string \<Rightarrow> json \<Rightarrow> pydict" where
  "dict_set d k v = AList.update k v d"


definition zero_stats :: pydict where
  "zero_stats = [(''views'', JInt 0), (''likes'', JInt 0), (''comments'', JInt 0), (''shares'', JInt 0)]"

section \<open>Structured-data extractors\<close>

subsection \<open>\<open>TikTokScraper._parse_intercepted_data\<close>\<close>

text \<open>
  The \<open>if\<close>/\<open>elif\<close> chain that sets \<open>item_info\<close> (\<open>JNull\<close> is Python's \<open>None\<close>). An
  exception inside is caught by the caller.
\<close>

definition tiktok_item_info :: "json \<Rightarrow> py_exc + json" where
  "tiktok_item_info d =
     bind_exc (py_in ''itemInfo'' d) (\<lambda>has_item_info.
       if has_item_info then
         bind_exc (py_item d ''itemInfo'') (\<lambda>i. py_get i ''itemStruct'' (JObj []))
       else
         bind_exc (py_in ''seoProps'' d) (\<lambda>has_seo_props.
           if has_seo_props then
             bind_exc (py_get d ''seoProps'' (JObj [])) (\<lambda>s. py_get s ''webVideoDetail'' (JObj []))
           else
             bind_exc (py_in ''itemList'' d) (\<lambda>has_item_list.
               if has_item_list then
                 bind_exc (py_get d ''itemList'' (JList [])) (\<lambda>items.
                   if truthy items then py_first items else Inr JNull)
               else Inr JNull)))"

definition tiktok_stats_of :: "json \<Rightarrow> py_exc + pydict" where
  "tiktok_stats_of item_info =
     bind_exc (py_get item_info ''stats'' (JObj [])) (\<lambda>stats.
     bind_exc (py_get stats ''playCount'' (JInt 0)) (\<lambda>views.
     bind_exc (py_get stats ''diggCount'' (JInt 0)) (\<lambda>likes.
     bind_exc (py_get stats ''commentCount'' (JInt 0)) (\<lambda>comments.
     bind_exc (py_get stats ''shareCount'' (JInt 0)) (\<lambda>shares.
       Inr [(''views'', views), (''likes'', likes), (''comments'', comments), (''shares'', shares)])))))"

text \<open>
  The whole method: \<open>None\<close> without a payload, \<open>None\<close> when anything inside raises,
  \<open>None\<close> when no item object is found.
\<close>

definition tiktok_parse_intercepted_data :: "json \<Rightarrow> pydict option" where
  "tiktok_parse_intercepted_data intercepted_data =
     (if \<not> truthy intercepted_data then None
      else case bind_exc (tiktok_item_info intercepted_data) (\<lambda>item_info.
                  if truthy item_info then map_sum id Some (tiktok_stats_of item_info)
                  else Inr None) of
             Inl e \<Rightarrow> None
           | Inr r \<Rightarrow> r)"

subsection \<open>\<open>InstagramScraper._parse_intercepted_data\<close>\<close>

definition instagram_media :: "json \<Rightarrow> py_exc + json" where
  "instagram_media d =
     bind_exc (py_in ''data'' d) (\<lambda>has_data.
     bind_exc
       (if has_data then
          bind_exc (py_get d ''data'' (JObj [])) (\<lambda>dd.
          bind_exc (py_get dd ''shortcode_media'' (JObj [])) (\<lambda>shortcode_media.
          bind_exc (py_get d ''data'' (JObj [])) (\<lambda>dd'.
          bind_exc (py_get dd' ''xdt_shortcode_media'' (JObj [])) (\<lambda>xdt_shortcode_media.
            Inr (if truthy xdt_shortcode_media then xdt_shortcode_media
                 else if truthy shortcode_media then shortcode_media
                 else JNull)))))
        else Inr JNull) (\<lambda>media.
     bind_exc (py_in ''items'' d) (\<lambda>has_items.
       if has_items then
         bind_exc (py_get d ''items'' (JList [])) (\<lambda>items.
           if truthy items then py_first items else Inr media)
       else Inr media)))"

definition instagram_stats_of :: "json \<Rightarrow> py_exc + pydict" where
  "instagram_stats_of media =
     bind_exc (py_get media ''edge_media_preview_like'' (JObj [])) (\<lambda>el.
     bind_exc (py_get el ''count'' (JInt 0)) (\<lambda>likes.
     bind_exc (py_get media ''edge_media_to_comment'' (JObj [])) (\<lambda>ec.
     bind_exc (py_get ec ''count'' (JInt 0)) (\<lambda>comments.
     bind_exc (py_get media ''video_view_count'' (JInt 0)) (\<lambda>vvc.
     bind_exc (if truthy vvc then Inr vvc else py_get media ''play_count'' (JInt 0)) (\<lambda>views.
     bind_exc (if \<not> truthy likes then py_get media ''like_count'' (JInt 0) else Inr likes) (\<lambda>likes'.
     bind_exc (if \<not> truthy comments then py_get media ''comment_count'' (JInt 0) else Inr comments) (\<lambda>comments'.
     bind_exc (if \<not> truthy views then py_get media ''view_count'' (JInt 0) else Inr views) (\<lambda>views'.
       Inr [(''views'', views'), (''likes'', likes'), (''comments'', comments'), (''shares'', JInt 0)])))))))))"

definition instagram_parse_intercepted_data :: "json \<Rightarrow> pydict option" where
  "instagram_parse_intercepted_data intercepted_data =
     (if \<not> truthy intercepted_data then None
      else case bind_exc (instagram_media intercepted_data) (\<lambda>media.
                  if truthy media then map_sum id Some (instagram_stats_of media)
                  else Inr None) of
             Inl e \<Rightarrow> None
           | Inr r \<Rightarrow> r)"

section \<open>Regular expressions of the scraper\<close>

text \<open>
  The patterns of the scraper are sequences of single-character tests, each taken
  once, optionally (\<open>?\<close>), any number of times (\<open>*\<close>) or at least once (\<open>+\<close>).
  \<open>re_match\<close> says whether a pattern matches at the start of a text, trying every way
  the repetitions can be split, as a backtracking matcher does.
\<close>

datatype quant = Once | Opt | Star | Plus

type_synonym pattern = "((char \<Rightarrow> bool) \<times> quant) list"

fun re_match :: "pattern \<Rightarrow> string \<Rightarrow> bool" where
  "re_match [] s = True"
| "re_match ((P, Once) # r) [] = False"
| "re_match ((P, Once) # r) (c # cs) = (P c \<and> re_match r cs)"
| "re_match ((P, Opt) # r) [] = re_match r []"
| "re_match ((P, Opt) # r) (c # cs) = ((P c \<and> re_match r cs) \<or> re_match r (c # cs))"
| "re_match ((P, Star) # r) [] = re_match r []"
| "re_match ((P, Star) # r) (c # cs) =
     ((P c \<and> re_match ((P, Star) # r) cs) \<or> re_match r (c # cs))"
| "re_match ((P, Plus) # r) [] = False"
| "re_match ((P, Plus) # r) (c # cs) = (P c \<and> re_match ((P, Star) # r) cs)"


text \<open>
  A pattern \<open>(X+)rest\<close> at the start of a text: the group takes the longest run of
  \<open>X\<close> characters after which \<open>rest\<close> still matches, since the greedy repetition gives
  characters back one at a time.
\<close>

fun greedy_group :: "(char \<Rightarrow> bool) \<Rightarrow> pattern \<Rightarrow> string \<Rightarrow> string option" where
  "greedy_group P r [] = None"
| "greedy_group P r (c # cs) =
     (if P c then
        (case greedy_group P r cs of
           Some g \<Rightarrow> Some (c # g)
         | None \<Rightarrow> if re_match r cs then Some [c] else None)
      else None)"

text \<open>\<open>re.search('(X+)rest', s)\<close>: group 1 of the leftmost match, \<open>None\<close> without a match.\<close>

fun re_search_group :: "(char \<Rightarrow> bool) \<Rightarrow> pattern \<Rightarrow> string \<Rightarrow> string option" where
  "re_search_group P r [] = None"
| "re_search_group P r (c # cs) =
     (case greedy_group P r (c # cs) of
        Some g \<Rightarrow> Some g
      | None \<Rightarrow> re_search_group P r cs)"


text \<open>A literal under \<open>re.I\<close>.\<close>

definition lit_i :: "string \<Rightarrow> pattern" where
  "lit_i s = map (\<lambda>c. ((\<lambda>d. upper_char d = upper_char c), Once)) s"


section \<open>Platform classifier\<close>





section \<open>The page of a browser session\<close>

text \<open>
  What the browser library does is outside the program. A \<open>page\<close> collects the
  answers it gives during one visit of one URL:
  \<^item> \<open>goto\<close>: whether \<open>page.goto(url, wait_until='networkidle', timeout=30000)\<close> raises,
    and what (\<open>TimeoutError\<close> when the 30 seconds are over);
  \<^item> \<open>scroll\<close>: whether \<open>scroll_page(page, 1)\<close> raises;
  \<^item> \<open>intercepted\<close>: the payload that the scraper's response listener has put into
    \<open>self.intercepted_data\<close> when the extraction reads it (\<open>JNull\<close> for \<open>None\<close>);
  \<^item> \<open>query_selector\<close>: the element found for a CSS selector, \<open>None\<close>, or an exception;
  \<^item> \<open>ld_json_scripts\<close>: the result of
    \<open>query_selector_all('script[type="application/ld+json"]')\<close>, and for each script
    the value of \<open>json.loads(await script.inner_text())\<close> or the exception it raises.
\<close>

record element =
  inner_text :: "py_exc + string"
  get_attribute :: "string \<Rightarrow> py_exc + string option"

record page =
  goto :: "py_exc option"
  scroll :: "py_exc option"
  intercepted :: json
  query_selector :: "string \<Rightarrow> py_exc + element option"
  ld_json_scripts :: "py_exc + (py_exc + json) list"

section \<open>HTML fallback extractors\<close>

subsection \<open>\<open>TikTokScraper._parse_from_html\<close>\<close>

definition TIKTOK_SELECTORS :: "(string \<times> string) list" where
  \<open>TIKTOK_SELECTORS =
     [(''views'', ''[data-e2e="video-views"]''),
      (''likes'', ''[data-e2e="like-count"], [data-e2e="browse-like-count"]''),
      (''comments'', ''[data-e2e="comment-count"], [data-e2e="browse-comment-count"]''),
      (''shares'', ''[data-e2e="share-count"]'')]\<close>

text \<open>One turn of the loop: any exception leaves the entry as it is.\<close>

definition tiktok_html_stat :: "page \<Rightarrow> pydict \<Rightarrow> string \<times> string \<Rightarrow> pydict" where
  "tiktok_html_stat p stats entry =
     (case entry of (stat_name, selector) \<Rightarrow>
        (case query_selector p selector of
           Inl e \<Rightarrow> stats
         | Inr None \<Rightarrow> stats
         | Inr (Some el) \<Rightarrow>
             (case inner_text el of
                Inl e \<Rightarrow> stats
              | Inr text \<Rightarrow>
                  (case tiktok_parse_count text of
                     Inl e \<Rightarrow> stats
                   | Inr n \<Rightarrow> dict_set stats stat_name (JInt n)))))"

definition tiktok_parse_from_html :: "page \<Rightarrow> pydict" where
  "tiktok_parse_from_html p = foldl (tiktok_html_stat p) zero_stats TIKTOK_SELECTORS"

subsection \<open>\<open>InstagramScraper._parse_from_html\<close>\<close>

text \<open>The class \<open>[\d,KMB.]\<close> under \<open>re.I\<close>.\<close>

definition count_char :: "char \<Rightarrow> bool" where
  "count_char c = (py_isdigit c \<or> c \<in> set '',KMB.kmb'')"

text \<open>
  \<open>re.search(r'([\d,KMB.]+)\s*likes?', content, re.I)\<close> and its two siblings: group 1
  of the match, if there is one.
\<close>

definition count_before :: "string \<Rightarrow> string \<Rightarrow> string option" where
  "count_before word content =
     re_search_group count_char
       ([(py_isspace, Star)] @ lit_i word @ [((\<lambda>d. upper_char d = CHR ''S''), Opt)]) content"

text \<open>
  A step on the statistics that may raise: the dictionary as it is when the step
  ends, and the exception if one ended it.
\<close>

definition set_count :: "string \<Rightarrow> string option \<Rightarrow> pydict \<Rightarrow> pydict \<times> py_exc option" where
  "set_count key m stats =
     (case m of
        None \<Rightarrow> (stats, None)
      | Some g \<Rightarrow> (case instagram_parse_count g of
                    Inl e \<Rightarrow> (stats, Some e)
                  | Inr n \<Rightarrow> (dict_set stats key (JInt n), None)))"

definition and_then ::
  "pydict \<times> py_exc option \<Rightarrow> (pydict \<Rightarrow> pydict \<times> py_exc option) \<Rightarrow> pydict \<times> py_exc option" where
  "and_then r f = (case r of (stats, Some e) \<Rightarrow> (stats, Some e) | (stats, None) \<Rightarrow> f stats)"

text \<open>Strategy (a): the \<open>og:description\<close> meta tag.\<close>

definition instagram_meta_strategy :: "page \<Rightarrow> pydict \<Rightarrow> pydict \<times> py_exc option" where
  \<open>instagram_meta_strategy p stats =
     (case query_selector p ''meta[property="og:description"]'' of
        Inl e \<Rightarrow> (stats, Some e)
      | Inr None \<Rightarrow> (stats, None)
      | Inr (Some meta_content) \<Rightarrow>
          (case get_attribute meta_content ''content'' of
             Inl e \<Rightarrow> (stats, Some e)
           | Inr None \<Rightarrow> (stats, None)
           | Inr (Some content) \<Rightarrow>
               if content = [] then (stats, None)
               else
                 let likes_match = count_before ''like'' content;
                     comments_match = count_before ''comment'' content;
                     views_match = count_before ''view'' content
                 in and_then (and_then (set_count ''likes'' likes_match stats)
                                (set_count ''comments'' comments_match))
                      (set_count ''views'' views_match)))\<close>

text \<open>Strategy (b): the \<open>application/ld+json\<close> script blocks.\<close>

fun py_iter :: "json \<Rightarrow> py_exc + json list" where
  "py_iter (JList xs) = Inr xs"
| "py_iter (JObj kv) = Inr (map (\<lambda>(k, v). JStr k) kv)"
| "py_iter (JStr s) = Inr (map (\<lambda>c. JStr [c]) s)"
| "py_iter v = Inl (TypeError (quoted (type_name v) @ '' object is not iterable''))"

definition instagram_apply_stat :: "pydict \<Rightarrow> json \<Rightarrow> py_exc + pydict" where
  "instagram_apply_stat stats stat =
     bind_exc (py_get stat ''interactionType'' (JStr [])) (\<lambda>stat_type.
     bind_exc (py_get stat ''userInteractionCount'' (JInt 0)) (\<lambda>count.
     bind_exc (py_in ''Like'' stat_type) (\<lambda>is_like.
       if is_like then Inr (dict_set stats ''likes'' count)
       else bind_exc (py_in ''Comment'' stat_type) (\<lambda>is_comment.
         if is_comment then Inr (dict_set stats ''comments'' count)
         else bind_exc (py_in ''Watch'' stat_type) (\<lambda>is_watch.
           if is_watch then Inr (dict_set stats ''views'' count)
           else Inr stats)))))"

text \<open>The inner loop: an exception ends it, what was written before stays.\<close>

fun instagram_apply_stats :: "pydict \<Rightarrow> json list \<Rightarrow> pydict" where
  "instagram_apply_stats stats [] = stats"
| "instagram_apply_stats stats (stat # rest) =
     (case instagram_apply_stat stats stat of
        Inl e \<Rightarrow> stats
      | Inr stats' \<Rightarrow> instagram_apply_stats stats' rest)"

definition instagram_script_step :: "pydict \<Rightarrow> py_exc + json \<Rightarrow> pydict" where
  "instagram_script_step stats script =
     (case script of
        Inl e \<Rightarrow> stats
      | Inr data \<Rightarrow>
          (case py_in ''interactionStatistic'' data of
             Inl e \<Rightarrow> stats
           | Inr False \<Rightarrow> stats
           | Inr True \<Rightarrow>
               (case bind_exc (py_get data ''interactionStatistic'' (JList [])) py_iter of
                  Inl e \<Rightarrow> stats
                | Inr entries \<Rightarrow> instagram_apply_stats stats entries)))"

definition instagram_parse_from_html :: "page \<Rightarrow> pydict" where
  "instagram_parse_from_html p =
     (case instagram_meta_strategy p zero_stats of
        (stats, Some e) \<Rightarrow> stats
      | (stats, None) \<Rightarrow>
          (case ld_json_scripts p of
             Inl e \<Rightarrow> stats
           | Inr scripts \<Rightarrow> foldl instagram_script_step stats scripts))"

section \<open>Scrape of one page\<close>

definition error_stats :: "py_exc \<Rightarrow> pydict" where
  "error_stats e =
     [(''views'', JInt 0), (''likes'', JInt 0), (''comments'', JInt 0), (''shares'', JInt 0),
      (''error'', JStr (exc_str e))]"

text \<open>
  \<open>TikTokScraper.scrape\<close>. The \<open>try\<close> block covers the navigation, the pauses and the
  scroll, and both extraction attempts; its \<open>except Exception\<close> turns whatever is
  raised there into the error record.
\<close>

definition tiktok_accepts :: "pydict option \<Rightarrow> py_exc + bool" where
  "tiktok_accepts stats =
     (case stats of
        None \<Rightarrow> Inr False
      | Some st \<Rightarrow> if st = [] then Inr False else gt_zero (dict_get st ''views'' (JInt 0)))"

definition tiktok_scrape :: "page \<Rightarrow> pydict" where
  "tiktok_scrape p =
     (case goto p of
        Some e \<Rightarrow> error_stats e
      | None \<Rightarrow>
          (case scroll p of
             Some e \<Rightarrow> error_stats e
           | None \<Rightarrow>
               (let stats = tiktok_parse_intercepted_data (intercepted p)
                in (case tiktok_accepts stats of
                      Inl e \<Rightarrow> error_stats e
                    | Inr True \<Rightarrow> the stats
                    | Inr False \<Rightarrow> tiktok_parse_from_html p))))"

text \<open>\<open>InstagramScraper.scrape\<close>.\<close>

definition instagram_accepts :: "pydict option \<Rightarrow> py_exc + bool" where
  "instagram_accepts stats =
     (case stats of
        None \<Rightarrow> Inr False
      | Some st \<Rightarrow>
          if st = [] then Inr False
          else bind_exc (gt_zero (dict_get st ''views'' (JInt 0))) (\<lambda>views_positive.
                 if views_positive then Inr True
                 else gt_zero (dict_get st ''likes'' (JInt 0))))"

definition instagram_scrape :: "page \<Rightarrow> pydict" where
  "instagram_scrape p =
     (case goto p of
        Some e \<Rightarrow> error_stats e
      | None \<Rightarrow>
          (case scroll p of
             Some e \<Rightarrow> error_stats e
           | None \<Rightarrow>
               (let stats = instagram_parse_intercepted_data (intercepted p)
                in (case instagram_accepts stats of
                      Inl e \<Rightarrow> error_stats e
                    | Inr True \<Rightarrow> the stats
                    | Inr False \<Rightarrow> instagram_parse_from_html p))))"

section \<open>Rate limiter\<close>

text \<open>
  \<open>RateLimiter\<close>. Times and delays are seconds; \<open>wait\<close> reads the clock and draws a
  random delay, which the model takes as arguments: the clock before, the delay
  drawn, the clock after the pause. It returns how long it slept, if it did.
\<close>

record rate_limiter =
  min_delay :: rat
  max_delay :: rat
  max_requests :: int
  request_count :: int
  last_request_time :: rat

definition new_rate_limiter :: "rat \<Rightarrow> rat \<Rightarrow> int \<Rightarrow> rate_limiter" where
  "new_rate_limiter mn mx n =
     \<lparr> min_delay = mn, max_delay = mx, max_requests = n,
       request_count = 0, last_request_time = 0 \<rparr>"

definition default_rate_limiter :: rate_limiter where
  "default_rate_limiter = new_rate_limiter 3 5 20"

definition can_make_request :: "rate_limiter \<Rightarrow> bool" where
  "can_make_request r = (request_count r < max_requests r)"

definition wait :: "rate_limiter \<Rightarrow> rat \<Rightarrow> rat \<Rightarrow> rat \<Rightarrow> rat option \<times> rate_limiter" where
  "wait r clock_before delay clock_after =
     (let slept =
            (if 0 < last_request_time r then
               (let elapsed = clock_before - last_request_time r
                in if elapsed < delay then Some (delay - elapsed) else None)
             else None)
      in (slept, r\<lparr> last_request_time := clock_after, request_count := request_count r + 1 \<rparr>))"

definition get_remaining_requests :: "rate_limiter \<Rightarrow> int" where
  "get_remaining_requests r = max 0 (max_requests r - request_count r)"

definition reset :: "rate_limiter \<Rightarrow> rate_limiter" where
  "reset r = r\<lparr> request_count := 0, last_request_time := 0 \<rparr>"

text \<open>\<open>n\<close> calls of \<open>wait\<close> in a row, with the clock readings and delays of each call.\<close>

fun wait_calls :: "rate_limiter \<Rightarrow> (rat \<times> rat \<times> rat) list \<Rightarrow> rate_limiter" where
  "wait_calls r [] = r"
| "wait_calls r ((clock_before, delay, clock_after) # rest) =
     wait_calls (snd (wait r clock_before delay clock_after)) rest"

section \<open>Browser sessions\<close>










section \<open>Orchestrators\<close>

subsection \<open>\<open>SocialMediaScraper.scrape_url\<close>\<close>



subsection \<open>\<open>scrape_single_url\<close> of the API module\<close>




subsection \<open>\<open>SocialMediaScraper.scrape_urls\<close>\<close>






section \<open>Statements of the specification\<close>

text \<open>
  The specification describes the TikTok structured-data extractor as a chain of
  shapes tried in order: \<open>itemInfo.itemStruct\<close>, then \<open>seoProps.webVideoDetail\<close>, then
  the first element of \<open>itemList\<close>, the statistics being read from whichever object
  is found. \<open>spec_tiktok_extract\<close> follows these words. \<open>keyed_tiktok_extract\<close> is the
  variant in which the first top-level key that is present decides alone which shape
  is looked at.
\<close>

definition json_at :: "json \<Rightarrow> string \<Rightarrow> json option" where
  "json_at v k = (case v of JObj kv \<Rightarrow> map_of kv k | _ \<Rightarrow> None)"

definition stats_field :: "pydict \<Rightarrow> string \<Rightarrow> json" where
  "stats_field st k = (case map_of st k of None \<Rightarrow> JInt 0 | Some v \<Rightarrow> v)"

definition read_tiktok_stats :: "json \<Rightarrow> pydict option" where
  "read_tiktok_stats item =
     (case item of
        JObj kv \<Rightarrow>
          (case (case map_of kv ''stats'' of None \<Rightarrow> Some [] | Some (JObj st) \<Rightarrow> Some st
                 | Some other \<Rightarrow> None) of
             None \<Rightarrow> None
           | Some st \<Rightarrow>
               Some [(''views'', stats_field st ''playCount''),
                     (''likes'', stats_field st ''diggCount''),
                     (''comments'', stats_field st ''commentCount''),
                     (''shares'', stats_field st ''shareCount'')])
      | other \<Rightarrow> None)"

definition first_of_list :: "json option \<Rightarrow> json option" where
  "first_of_list v = (case v of Some (JList (x # xs)) \<Rightarrow> Some x | _ \<Rightarrow> None)"

definition spec_tiktok_item :: "json \<Rightarrow> json option" where
  "spec_tiktok_item d =
     (case Option.bind (json_at d ''itemInfo'') (\<lambda>i. json_at i ''itemStruct'') of
        Some x \<Rightarrow> Some x
      | None \<Rightarrow>
          (case Option.bind (json_at d ''seoProps'') (\<lambda>s. json_at s ''webVideoDetail'') of
             Some x \<Rightarrow> Some x
           | None \<Rightarrow> first_of_list (json_at d ''itemList'')))"

definition spec_tiktok_extract :: "json \<Rightarrow> pydict option" where
  "spec_tiktok_extract d = Option.bind (spec_tiktok_item d) read_tiktok_stats"

definition keyed_tiktok_item :: "json \<Rightarrow> json option" where
  "keyed_tiktok_item d =
     (case json_at d ''itemInfo'' of
        Some i \<Rightarrow> json_at i ''itemStruct''
      | None \<Rightarrow>
          (case json_at d ''seoProps'' of
             Some s \<Rightarrow> json_at s ''webVideoDetail''
           | None \<Rightarrow> first_of_list (json_at d ''itemList'')))"

definition keyed_tiktok_extract :: "json \<Rightarrow> pydict option" where
  "keyed_tiktok_extract d =
     Option.bind (keyed_tiktok_item d)
       (\<lambda>item. if item = JObj [] then None else read_tiktok_stats item)"

text \<open>The four statistics of a record, and what the specification says of them.\<close>

definition stat_keys :: "string list" where
  "stat_keys = [''views'', ''likes'', ''comments'', ''shares'']"







text \<open>
  The count parser up to the conversion to an integer: the multiplier and the text
  left after the normalisation, and the float \<open>float(text) * multiplier\<close>.
\<close>

definition count_parts :: "string \<Rightarrow> int \<times> string" where
  "count_parts text =
     (let text1 = py_remove CHR '' '' (py_remove CHR '','' (py_upper (py_strip text)))
      in if py_endswith text1 CHR ''K'' then (1000, butlast text1)
         else if py_endswith text1 CHR ''M'' then (1000000, butlast text1)
         else if py_endswith text1 CHR ''B'' then (1000000000, butlast text1)
         else (1, text1))"

definition scaled_float :: "string \<Rightarrow> py_exc + pyfloat" where
  "scaled_float text =
     (case count_parts text of
        (multiplier, text2) \<Rightarrow>
          (case py_float text2 of
             Inl e \<Rightarrow> Inl e
           | Inr f \<Rightarrow> Inr (float_times_int f multiplier)))"

text \<open>A float that is not below zero: a finite one from 0 on, plus infinity, or NaN.\<close>

fun float_nonneg :: "pyfloat \<Rightarrow> bool" where
  "float_nonneg (Finite q) = (0 \<le> q)"
| "float_nonneg PosInf = True"
| "float_nonneg NegInf = False"
| "float_nonneg NaN = True"

section \<open>Example inputs\<close>

text \<open>A page on which nothing is found, and an environment in which every page is so.\<close>

definition blank_page :: page where
  "blank_page =
     \<lparr> goto = None, scroll = None, intercepted = JNull,
       query_selector = (\<lambda>selector. Inr None), ld_json_scripts = Inr [] \<rparr>"


text \<open>The payload of the specification's end-to-end scenario.\<close>

definition scenario_payload :: json where
  "scenario_payload =
     JObj [(''itemInfo'', JObj [(''itemStruct'', JObj [(''stats'',
       JObj [(''playCount'', JInt 12500), (''diggCount'', JInt 890),
             (''commentCount'', JInt 45), (''shareCount'', JInt 12)])])])]"

text \<open>A payload with an \<open>itemInfo\<close> that holds no \<open>itemStruct\<close>, beside a \<open>seoProps\<close> that
  holds the video.\<close>

definition two_shape_payload :: json where
  "two_shape_payload =
     JObj [(''itemInfo'', JObj []),
           (''seoProps'', JObj [(''webVideoDetail'', JObj [(''stats'',
              JObj [(''playCount'', JInt 5)])])])]"

text \<open>A video with likes and no reported views.\<close>

definition likes_only_payload :: json where
  "likes_only_payload =
     JObj [(''itemInfo'', JObj [(''itemStruct'', JObj [(''stats'',
       JObj [(''playCount'', JInt 0), (''diggCount'', JInt 890),
             (''commentCount'', JInt 45), (''shareCount'', JInt 12)])])])]"




text \<open>A visit whose navigation runs into the 30 seconds, the scenario's payload
  having been captured before.\<close>

definition timeout_page :: page where
  "timeout_page =
     blank_page\<lparr> goto := Some (TimeoutError ''Timeout 30000ms exceeded.''),
                 intercepted := scenario_payload \<rparr>"








section \<open>The two count parsers\<close>

text \<open>
  Claim C10. \<open>TikTokScraper._parse_count\<close> and \<open>InstagramScraper._parse_count\<close> are
  the same function: on every text they return the same integer or raise the same
  exception.
\<close>

theorem parse_count_implementations_agree:
  "tiktok_parse_count text = instagram_parse_count text"
  by (simp add: tiktok_parse_count_def instagram_parse_count_def)

section \<open>The rate limiter's contract\<close>

lemma request_count_wait_calls:
  "request_count (wait_calls r ts) = request_count r + int (length ts)"
  by (induction r ts rule: wait_calls.induct) (simp_all add: wait_def)

lemma max_requests_wait_calls:
  "max_requests (wait_calls r ts) = max_requests r"
  by (induction r ts rule: wait_calls.induct) (simp_all add: wait_def)

text \<open>
  Claim C8, as amended. \<open>can_make_request\<close> holds exactly while \<open>request_count\<close> is
  below \<open>max_requests\<close>; after \<open>max_requests\<close> calls of \<open>wait\<close> from a state with no
  request counted it does not hold; \<open>reset\<close> sets both counters to zero and keeps
  the ceiling, so that \<open>can_make_request\<close> holds after it exactly when the ceiling
  is positive; and \<open>wait\<close> counts every call, whether the ceiling is reached or not.
\<close>

theorem rate_limiter_contract:
  "(can_make_request r \<longleftrightarrow> request_count r < max_requests r)
   \<and> (request_count r = 0 \<and> length ts = nat (max_requests r)
        \<longrightarrow> \<not> can_make_request (wait_calls r ts))
   \<and> request_count (reset r) = 0 \<and> last_request_time (reset r) = 0
   \<and> max_requests (reset r) = max_requests r
   \<and> (can_make_request (reset r) \<longleftrightarrow> 0 < max_requests r)
   \<and> request_count (snd (wait r clock_before delay clock_after)) = request_count r + 1
   \<and> max_requests (snd (wait r clock_before delay clock_after)) = max_requests r"
  by (simp add: can_make_request_def request_count_wait_calls max_requests_wait_calls
      reset_def wait_def)

text \<open>
  The default limiter: twenty calls of \<open>wait\<close> exhaust it, \<open>reset\<close> restores it.
\<close>

theorem rate_limiter_contract_witness:
  "request_count default_rate_limiter = 0
   \<and> length (replicate 20 (0 :: rat, 0 :: rat, 0 :: rat)) = nat (max_requests default_rate_limiter)
   \<and> \<not> can_make_request (wait_calls default_rate_limiter (replicate 20 (0, 0, 0)))
   \<and> can_make_request (reset (wait_calls default_rate_limiter (replicate 20 (0, 0, 0))))"
  using rate_limiter_contract [of default_rate_limiter "replicate 20 (0, 0, 0)"]
    rate_limiter_contract [of "wait_calls default_rate_limiter (replicate 20 (0, 0, 0))"]
  by (simp add: default_rate_limiter_def new_rate_limiter_def max_requests_wait_calls)

text \<open>
  Claim C8 as stated fails for a limiter built with \<open>max_requests = 0\<close>: \<open>reset\<close>
  does not make \<open>can_make_request\<close> true.
\<close>

theorem reset_zero_ceiling_counterexample:
  "\<not> can_make_request (reset (new_rate_limiter 3 5 0))"
  by (simp add: can_make_request_def reset_def new_rate_limiter_def)

section \<open>Unknown platforms\<close>




section \<open>The TikTok structured-data extractor\<close>

lemma tiktok_stats_of_read:
  "(case tiktok_stats_of item of Inl e \<Rightarrow> None | Inr st \<Rightarrow> Some st) = read_tiktok_stats item"
  by (cases item; simp add: tiktok_stats_of_def read_tiktok_stats_def bind_exc_def stats_field_def
        split: option.splits json.splits)

lemma read_guard:
  "(if truthy item then read_tiktok_stats item else None)
   = (if item = JObj [] then None else read_tiktok_stats item)"
  by (cases item) (simp_all add: read_tiktok_stats_def)

lemma tiktok_candidate:
  "(case bind_exc r (\<lambda>item_info. if truthy item_info then map_sum id Some (tiktok_stats_of item_info)
                  else Inr None) of Inl e \<Rightarrow> None | Inr x \<Rightarrow> x)
   = (case r of Inl e \<Rightarrow> None
      | Inr item \<Rightarrow> if item = JObj [] then None else read_tiktok_stats item)"
proof (cases r)
  case (Inl e)
  then show ?thesis by (simp add: bind_exc_def)
next
  case (Inr item)
  have "(case map_sum id Some (tiktok_stats_of item) of Inl e \<Rightarrow> None | Inr x \<Rightarrow> x)
        = read_tiktok_stats item"
    using tiktok_stats_of_read [of item] by (cases "tiktok_stats_of item") simp_all
  with Inr show ?thesis
    using read_guard [of item] by (simp add: bind_exc_def split: if_splits)
qed

lemma member_candidate:
  "(case py_get v k (JObj []) of Inl e \<Rightarrow> None
     | Inr item \<Rightarrow> if item = JObj [] then None else read_tiktok_stats item)
   = Option.bind (json_at v k) (\<lambda>item. if item = JObj [] then None else read_tiktok_stats item)"
  by (cases v) (simp_all add: json_at_def split: option.splits)

lemma first_candidate:
  "(case (if truthy items then py_first items else Inr JNull) of Inl e \<Rightarrow> None
     | Inr item \<Rightarrow> if item = JObj [] then None else read_tiktok_stats item)
   = Option.bind (first_of_list (Some items))
       (\<lambda>item. if item = JObj [] then None else read_tiktok_stats item)"
proof (cases items)
  case (JList xs)
  then show ?thesis by (cases xs) (simp_all add: first_of_list_def read_tiktok_stats_def)
next
  case (JStr s)
  then show ?thesis by (cases s) (simp_all add: first_of_list_def read_tiktok_stats_def)
qed (simp_all add: first_of_list_def read_tiktok_stats_def)

lemma tiktok_item_info_object:
  "(case tiktok_item_info (JObj kv) of Inl e \<Rightarrow> None
     | Inr item \<Rightarrow> if item = JObj [] then None else read_tiktok_stats item)
   = keyed_tiktok_extract (JObj kv)"
proof (cases "map_of kv ''itemInfo''")
  case (Some i)
  then show ?thesis
    using member_candidate [of i "''itemStruct''"]
    by (simp add: tiktok_item_info_def keyed_tiktok_extract_def keyed_tiktok_item_def
        bind_exc_def json_at_def)
next
  case no_info: None
  show ?thesis
  proof (cases "map_of kv ''seoProps''")
    case (Some s)
    with no_info show ?thesis
      using member_candidate [of s "''webVideoDetail''"]
      by (simp add: tiktok_item_info_def keyed_tiktok_extract_def keyed_tiktok_item_def
          bind_exc_def json_at_def)
  next
    case no_seo: None
    show ?thesis
    proof (cases "map_of kv ''itemList''")
      case None
      with no_info no_seo show ?thesis
        by (simp add: tiktok_item_info_def keyed_tiktok_extract_def keyed_tiktok_item_def
            bind_exc_def json_at_def first_of_list_def read_tiktok_stats_def)
    next
      case (Some items)
      with no_info no_seo show ?thesis
        using first_candidate [of items]
        by (simp add: tiktok_item_info_def keyed_tiktok_extract_def keyed_tiktok_item_def
            bind_exc_def json_at_def)
    qed
  qed
qed

lemma keyed_empty: "keyed_tiktok_extract (JObj []) = None"
  by (simp add: keyed_tiktok_extract_def keyed_tiktok_item_def json_at_def first_of_list_def)

lemma tiktok_extract_eq: "tiktok_parse_intercepted_data d = keyed_tiktok_extract d"
proof (cases d)
  case (JObj kv)
  then show ?thesis
    using tiktok_item_info_object [of kv] keyed_empty
    by (simp add: tiktok_parse_intercepted_data_def tiktok_candidate)
next
  case (JStr s)
  then show ?thesis
    by (simp add: tiktok_parse_intercepted_data_def tiktok_candidate tiktok_item_info_def
        bind_exc_def keyed_tiktok_extract_def keyed_tiktok_item_def json_at_def first_of_list_def)
next
  case (JList xs)
  then show ?thesis
    by (simp add: tiktok_parse_intercepted_data_def tiktok_candidate tiktok_item_info_def
        bind_exc_def keyed_tiktok_extract_def keyed_tiktok_item_def json_at_def first_of_list_def)
qed (simp_all add: tiktok_parse_intercepted_data_def tiktok_candidate tiktok_item_info_def
        bind_exc_def keyed_tiktok_extract_def keyed_tiktok_item_def json_at_def first_of_list_def)

lemma scenario_value:
  "tiktok_parse_intercepted_data scenario_payload =
     Some [(''views'', JInt 12500), (''likes'', JInt 890), (''comments'', JInt 45),
           (''shares'', JInt 12)]"
  by code_simp

text \<open>
  Claim C5, as amended. For every intercepted payload, the extractor looks at one
  shape only, chosen by the first of the top-level keys \<open>itemInfo\<close>, \<open>seoProps\<close>,
  \<open>itemList\<close> that the payload holds: \<open>itemInfo.itemStruct\<close>, \<open>seoProps.webVideoDetail\<close>
  or the first element of \<open>itemList\<close>. When that object is missing or empty the
  result is ``no data'', and no later shape is tried. From the object it reads
  \<open>stats.playCount\<close>, \<open>diggCount\<close>, \<open>commentCount\<close> and \<open>shareCount\<close>, each 0 when absent.
  The payload of the end-to-end scenario yields views 12500, likes 890, comments 45
  and shares 12.
\<close>

theorem tiktok_extract_by_first_key:
  "tiktok_parse_intercepted_data d = keyed_tiktok_extract d
   \<and> tiktok_parse_intercepted_data scenario_payload =
       Some [(''views'', JInt 12500), (''likes'', JInt 890), (''comments'', JInt 45),
             (''shares'', JInt 12)]"
  using tiktok_extract_eq scenario_value by simp

text \<open>
  Claim C5 as stated fails on a payload whose \<open>itemInfo\<close> holds no \<open>itemStruct\<close> while
  \<open>seoProps.webVideoDetail\<close> holds the video: trying the shapes in order finds the
  video, the extractor reports no data.
\<close>

theorem tiktok_extract_counterexample:
  "tiktok_parse_intercepted_data two_shape_payload = None
   \<and> spec_tiktok_extract two_shape_payload =
       Some [(''views'', JInt 5), (''likes'', JInt 0), (''comments'', JInt 0), (''shares'', JInt 0)]"
  by code_simp


section \<open>The acceptance rule\<close>

lemma acceptance_rules:
  "tiktok_accepts (Some [(''views'', JInt v), (''likes'', JInt l), (''comments'', c), (''shares'', s)])
     = Inr (0 < v)"
  "instagram_accepts (Some [(''views'', JInt v), (''likes'', JInt l), (''comments'', c), (''shares'', s)])
     = Inr (0 < v \<or> 0 < l)"
  by (simp_all add: tiktok_accepts_def instagram_accepts_def dict_get_def bind_exc_def)

text \<open>
  Claim C1 says that the structured result is accepted exactly when views or likes
  is positive. \<open>InstagramScraper.scrape\<close> does so; \<open>TikTokScraper.scrape\<close> looks at
  views alone. For the TikTok payload with no views and 890 likes the extractor
  yields the four numbers, the TikTok scrape rejects them and returns what the HTML
  fallback finds (on a page without the elements: zeros), while the Instagram rule
  accepts the same result.
\<close>

theorem tiktok_rejects_likes_only:
  "tiktok_parse_intercepted_data likes_only_payload =
     Some [(''views'', JInt 0), (''likes'', JInt 890), (''comments'', JInt 45), (''shares'', JInt 12)]
   \<and> tiktok_accepts (tiktok_parse_intercepted_data likes_only_payload) = Inr False
   \<and> tiktok_scrape (blank_page\<lparr> intercepted := likes_only_payload \<rparr>) = zero_stats
   \<and> instagram_accepts (tiktok_parse_intercepted_data likes_only_payload) = Inr True"
  by code_simp

section \<open>Navigation timeout\<close>

text \<open>
  Claim C2, as amended. A navigation that runs into its 30 seconds raises inside the
  \<open>try\<close> block of the scrape like any other failure: the scrape makes no extraction
  attempt and returns the four statistics at zero with an \<open>error\<close> field that holds
  the exception's text.
\<close>

theorem navigation_timeout_is_an_error:
  assumes "goto p = Some (TimeoutError m)"
  shows "tiktok_scrape p = error_stats (TimeoutError m)
    \<and> instagram_scrape p = error_stats (TimeoutError m)
    \<and> error_stats (TimeoutError m) =
        [(''views'', JInt 0), (''likes'', JInt 0), (''comments'', JInt 0), (''shares'', JInt 0),
         (''error'', JStr m)]"
  using assms by (simp add: tiktok_scrape_def instagram_scrape_def error_stats_def)

theorem navigation_timeout_is_an_error_witness:
  "goto timeout_page = Some (TimeoutError ''Timeout 30000ms exceeded.'')
   \<and> tiktok_scrape timeout_page = error_stats (TimeoutError ''Timeout 30000ms exceeded.'')
   \<and> instagram_scrape timeout_page = error_stats (TimeoutError ''Timeout 30000ms exceeded.'')"
  using navigation_timeout_is_an_error [of timeout_page "''Timeout 30000ms exceeded.''"]
  by (simp add: timeout_page_def blank_page_def)

text \<open>
  Claim C2 as stated fails on a visit where only the navigation times out and the
  payload of the end-to-end scenario was captured: the record has an \<open>error\<close> field
  and zero views.
\<close>

theorem navigation_timeout_counterexample:
  "goto timeout_page = Some (TimeoutError ''Timeout 30000ms exceeded.'')
   \<and> scroll timeout_page = None
   \<and> tiktok_parse_intercepted_data (intercepted timeout_page) =
       Some [(''views'', JInt 12500), (''likes'', JInt 890), (''comments'', JInt 45),
             (''shares'', JInt 12)]
   \<and> map_of (tiktok_scrape timeout_page) ''error'' = Some (JStr ''Timeout 30000ms exceeded.'')
   \<and> map_of (tiktok_scrape timeout_page) ''views'' = Some (JInt 0)
   \<and> map_of (instagram_scrape timeout_page) ''error'' = Some (JStr ''Timeout 30000ms exceeded.'')"
  by code_simp

section \<open>The two strategies of the Instagram HTML fallback\<close>













section \<open>The fields of a record\<close>



lemma read_tiktok_stats_keys:
  "read_tiktok_stats item = Some st \<Longrightarrow> map fst st = stat_keys"
  by (auto simp: read_tiktok_stats_def stat_keys_def split: json.splits option.splits)



































section \<open>Sessions of a batch\<close>







end
